theory Spec2Isabelle
  imports Main
begin

section \<open>The traced workflow of \<open>flask_app/app.py\<close>\<close>

text \<open>
  The module serves one endpoint, \<open>complex_operation\<close>, whose body opens trace spans
  with \<open>with tracer.start_as_current_span(...)\<close>, sleeps for random durations, runs three
  coroutines under \<open>asyncio.gather\<close> and makes one HTTP request. The embedding threads a
  record \<open>world\<close> through the code: the clock, the table of spans, the order of span
  events, the spans handed to the span processor, the log records and the HTTP requests
  made. Everything the environment decides (the sleep durations, the outcome and the
  duration of the HTTP request) is an input, the record \<open>env\<close>.

  The table of spans holds the spans that are created through the module's own tracer,
  \<open>tracer = trace.get_tracer(__name__)\<close>, and the span events are the starts and ends
  of those spans. The module also switches on the Flask and requests instrumentations,
  which create spans through tracers of their own: a server span around the endpoint
  when it is reached through its route, and a client span around the HTTP request inside
  \<open>external_api_call\<close>. Those spans are made by library code and are not in the table.
\<close>

subsection \<open>Data\<close>

text \<open>The exceptions that the body of the endpoint can raise: \<open>requests.get\<close> fails, or
  \<open>response.json()\<close> cannot decode the body. \<open>TaskError\<close> is an exception raised
  by the body of a coroutine given to \<open>asyncio.gather\<close>; the coroutines of the
  endpoint raise none.\<close>

datatype error = RequestException string | JSONDecodeError | TaskError string

datatype status = Success | Error error

type_synonym json = string

record span =
  span_id :: nat
  parent_span_id :: "nat option"
  span_name :: string
  start_time :: nat
  completion :: "(nat \<times> status) option"

datatype event = SpanStart nat | SpanEnd nat

text \<open>The current context of one execution path: the open spans, innermost first.\<close>

type_synonym ctx_stack = "nat list"

record world =
  now :: nat
  next_span_id :: nat
  spans :: "span list"
  events :: "event list"
  submitted :: "span list"
  logs :: "(nat option \<times> string) list"
  requests_made :: "string list"

datatype http_result = TransportFailure string | HttpResponse nat "json option"

record env =
  db_sleep :: nat
  processing_sleep :: nat
  task_sleep :: "string \<Rightarrow> nat"
  final_sleep :: nat
  http_get :: "string \<Rightarrow> http_result"
  http_duration :: nat

record response =
  message :: string
  external_data :: json

text \<open>A coroutine of the shape of \<open>async_operation\<close>: its name, how long it sleeps,
  and the exception that its body raises after the sleep, if any. A pending task is such
  a coroutine suspended at its sleep.\<close>

record coroutine =
  co_name :: string
  co_sleep :: nat
  co_raises :: "error option"

record pending =
  wake_at :: nat
  task_span :: nat
  task_ctx :: ctx_stack
  task_name :: string
  task_raises :: "error option"

subsection \<open>The tracer\<close>

text \<open>
  Modelled from the spec: the tracer and its span processor are the OpenTelemetry
  library, which is not part of the module. A span is created with the top of the
  current context as its parent and the clock as its start time; it is completed once,
  with the clock as its end time and a status that says whether the body of its
  \<open>with\<close> block raised, and is then handed to the span processor (the list
  \<open>submitted\<close>).
\<close>

definition current_span :: "ctx_stack \<Rightarrow> nat option" where
  "current_span ctx = (case ctx of [] \<Rightarrow> None | s # _ \<Rightarrow> Some s)"

definition start_span :: "string \<Rightarrow> ctx_stack \<Rightarrow> world \<Rightarrow> nat \<times> world" where
  "start_span nm ctx w =
     (let sid = next_span_id w;
          s = \<lparr>span_id = sid, parent_span_id = current_span ctx, span_name = nm,
               start_time = now w, completion = None\<rparr>
      in (sid, w\<lparr>next_span_id := sid + 1, spans := spans w @ [s],
                  events := events w @ [SpanStart sid]\<rparr>))"

definition end_span :: "nat \<Rightarrow> status \<Rightarrow> world \<Rightarrow> world" where
  "end_span sid st w =
     (case find (\<lambda>s. span_id s = sid \<and> completion s = None) (spans w) of
        None \<Rightarrow> w
      | Some s \<Rightarrow>
          (let s' = s\<lparr>completion := Some (now w, st)\<rparr>
           in w\<lparr>spans := map (\<lambda>x. if span_id x = sid then s' else x) (spans w),
                events := events w @ [SpanEnd sid],
                submitted := submitted w @ [s']\<rparr>))"

text \<open>\<open>with tracer.start_as_current_span(nm): body\<close>. The body runs with the new span
  on top of the context; an exception of the body ends the span with error status and
  goes on to the caller.\<close>

definition with_span ::
  "string \<Rightarrow> ctx_stack \<Rightarrow> (ctx_stack \<Rightarrow> world \<Rightarrow> (error + 'a) \<times> world) \<Rightarrow> world
     \<Rightarrow> (error + 'a) \<times> world" where
  "with_span nm ctx body w =
     (case start_span nm ctx w of
        (sid, w1) \<Rightarrow>
          (case body (sid # ctx) w1 of
             (Inl e, w2) \<Rightarrow> (Inl e, end_span sid (Error e) w2)
           | (Inr v, w2) \<Rightarrow> (Inr v, end_span sid Success w2)))"

subsection \<open>Sleeping, logging, sequencing\<close>

text \<open>\<open>await asyncio.sleep(d)\<close> with nothing else scheduled moves the clock on by \<open>d\<close>.
  The durations come from \<open>random.uniform\<close> in the source and from the environment
  here, in ticks of the clock. The clock moves at the sleeps and at the HTTP request
  only: the statements between them take no time.\<close>

definition sleep :: "nat \<Rightarrow> world \<Rightarrow> world" where
  "sleep d w = w\<lparr>now := now w + d\<rparr>"

text \<open>\<open>logger.info(msg)\<close>: the logging instrumentation tags the record with the current
  span of the calling path.\<close>

definition log_info :: "string \<Rightarrow> ctx_stack \<Rightarrow> world \<Rightarrow> world" where
  "log_info msg ctx w = w\<lparr>logs := logs w @ [(current_span ctx, msg)]\<rparr>"

text \<open>Statement sequencing: an exception of the first statement skips the rest.\<close>

definition and_then ::
  "(error + 'a) \<times> world \<Rightarrow> ('a \<Rightarrow> world \<Rightarrow> (error + 'b) \<times> world) \<Rightarrow> (error + 'b) \<times> world" where
  "and_then r f = (case r of (Inl e, w) \<Rightarrow> (Inl e, w) | (Inr v, w) \<Rightarrow> f v w)"

fun show_nat :: "nat \<Rightarrow> string" where
  "show_nat n =
     (if n < 10 then [char_of (48 + n)]
      else show_nat (n div 10) @ [char_of (48 + n mod 10)])"

declare show_nat.simps [simp del]

subsection \<open>\<open>async_operation\<close> and \<open>asyncio.gather\<close>\<close>

text \<open>
  The coroutine \<open>async_operation(name)\<close> has one suspension point, its
  \<open>await asyncio.sleep(...)\<close>. Up to there it opens the span \<open>async_<name>\<close> in its own
  copy of the context and asks to be woken after its sleep; once woken it logs and
  leaves the \<open>with\<close> block. Its body is a sleep and a log call and raises nothing.
\<close>

definition async_operation :: "string \<Rightarrow> env \<Rightarrow> coroutine" where
  "async_operation nm e = \<lparr>co_name = nm, co_sleep = task_sleep e nm, co_raises = None\<rparr>"

definition async_operation_begin :: "coroutine \<Rightarrow> ctx_stack \<Rightarrow> world \<Rightarrow> pending \<times> world" where
  "async_operation_begin co ctx w =
     (case start_span (''async_'' @ co_name co) ctx w of
        (sid, w1) \<Rightarrow>
          (\<lparr>wake_at = now w1 + co_sleep co, task_span = sid,
            task_ctx = sid # ctx, task_name = co_name co, task_raises = co_raises co\<rparr>, w1))"

text \<open>Once woken, a body that raises leaves the \<open>with\<close> block with its exception, which
  ends the span with error status and finishes the task with that exception.\<close>

definition async_operation_resume :: "pending \<Rightarrow> world \<Rightarrow> (error + unit) \<times> world" where
  "async_operation_resume p w =
     (case task_raises p of
        None \<Rightarrow>
          (Inr (), end_span (task_span p) Success
                     (log_info (''Async operation '' @ task_name p @ '' completed'')
                        (task_ctx p) w))
      | Some err \<Rightarrow> (Inl err, end_span (task_span p) (Error err) w))"

text \<open>
  \<open>asyncio.gather\<close> wraps each coroutine in a task that owns a copy of the caller's
  context. The event loop runs the tasks in the order given up to their sleep, then
  wakes each one at its own time, earliest first, and the caller goes on when the last
  one has finished. The endpoint calls \<open>gather\<close> without \<open>return_exceptions\<close>: the
  first task that finishes with an exception hands it to the caller at once, while the
  tasks still asleep have their spans open. Those tasks are not cancelled, but the
  exception leaves the endpoint and \<open>async_action\<close> closes the event loop, so they
  are never woken. What becomes of their spans when the interpreter discards the tasks
  is not modelled: the endpoint's own coroutines never raise.

  The three timers are armed at one reading of the clock here and ties are woken in the
  order given; the event loop arms them one after the other and keeps them in a heap, so
  on ties and near-ties the order in which the sub-tasks end can differ from the model's.
\<close>

fun spawn_all :: "coroutine list \<Rightarrow> ctx_stack \<Rightarrow> world \<Rightarrow> pending list \<times> world" where
  "spawn_all [] ctx w = ([], w)"
| "spawn_all (co # cos) ctx w =
     (case async_operation_begin co ctx w of
        (p, w1) \<Rightarrow> (case spawn_all cos ctx w1 of (ps, w2) \<Rightarrow> (p # ps, w2)))"

fun run_pending :: "pending list \<Rightarrow> world \<Rightarrow> (error + unit) \<times> world" where
  "run_pending [] w = (Inr (), w)"
| "run_pending (p # ps) w =
     (case async_operation_resume p (w\<lparr>now := max (now w) (wake_at p)\<rparr>) of
        (Inl err, w1) \<Rightarrow> (Inl err, w1)
      | (Inr _, w1) \<Rightarrow> run_pending ps w1)"

definition gather :: "coroutine list \<Rightarrow> ctx_stack \<Rightarrow> world \<Rightarrow> (error + unit) \<times> world" where
  "gather cos ctx w =
     (case spawn_all cos ctx w of (ps, w1) \<Rightarrow> run_pending (sort_key wake_at ps) w1)"

subsection \<open>\<open>external_api_call\<close>\<close>

text \<open>\<open>requests.get\<close> raises on a transport failure and returns a response for every
  HTTP status; the status is logged and not looked at again. \<open>response.json()\<close> raises
  when the body is not JSON.\<close>

definition external_api_call ::
  "string \<Rightarrow> ctx_stack \<Rightarrow> env \<Rightarrow> world \<Rightarrow> (error + json) \<times> world" where
  "external_api_call url ctx e w =
     with_span ''external_api_call'' ctx
       (\<lambda>c w0.
          (let w1 = (sleep (http_duration e) w0)\<lparr>requests_made := requests_made w0 @ [url]\<rparr>
           in case http_get e url of
                TransportFailure d \<Rightarrow> (Inl (RequestException d), w1)
              | HttpResponse code body \<Rightarrow>
                  (let w2 = log_info (''External API call to '' @ url @
                                       '' completed with status '' @ show_nat code) c w1
                   in case body of
                        None \<Rightarrow> (Inl JSONDecodeError, w2)
                      | Some j \<Rightarrow> (Inr j, w2)))) w"

subsection \<open>\<open>complex_operation\<close>\<close>

definition api_url :: string where
  "api_url = ''https://jsonplaceholder.typicode.com/todos/1''"

definition task_names :: "string list" where
  "task_names = [''task1'', ''task2'', ''task3'']"

text \<open>The decorator \<open>async_action\<close> runs the coroutine to completion on a fresh event
  loop and returns its result or raises its exception, so the endpoint is the coroutine
  run to its end.\<close>

definition complex_operation :: "env \<Rightarrow> world \<Rightarrow> (error + response) \<times> world" where
  "complex_operation e w =
     with_span ''complex_operation'' []
       (\<lambda>ctx w0.
          and_then
            (with_span ''database_query'' ctx
               (\<lambda>c w1. (Inr (), log_info ''Database query completed'' c (sleep (db_sleep e) w1)))
               (log_info ''Starting complex operation'' ctx w0))
          (\<lambda>_ w2.
          and_then
            (with_span ''processing'' ctx
               (\<lambda>c w3. (Inr (), log_info ''Data processing completed'' c
                                   (sleep (processing_sleep e) w3)))
               w2)
          (\<lambda>_ w4.
          and_then (gather (map (\<lambda>nm. async_operation nm e) task_names) ctx w4)
          (\<lambda>_ w5.
          and_then (external_api_call api_url ctx e w5)
          (\<lambda>external_data w6.
          and_then
            (with_span ''final_computation'' ctx
               (\<lambda>c w7. (Inr (), log_info ''Final computation completed'' c
                                   (sleep (final_sleep e) w7)))
               w6)
          (\<lambda>_ w8.
             (Inr \<lparr>message = ''Complex operation completed'',
                   external_data = external_data\<rparr>, w8))))))) w"

definition init_world :: "nat \<Rightarrow> world" where
  "init_world t0 =
     \<lparr>now = t0, next_span_id = 0, spans = [], events = [], submitted = [], logs = [],
      requests_made = []\<rparr>"

subsection \<open>Concrete environments\<close>

text \<open>Three environments to run the endpoint in: the API answers 200 with a JSON body, it
  answers 404 with a JSON body, and the connection is refused.\<close>

definition demo_env :: env where
  "demo_env =
     \<lparr>db_sleep = 200, processing_sleep = 300,
      task_sleep = (\<lambda>nm. if nm = ''task1'' then 400 else if nm = ''task2'' then 100 else 250),
      final_sleep = 150,
      http_get = (\<lambda>url. HttpResponse 200 (Some ''{id: 1}'')),
      http_duration = 80\<rparr>"

definition not_found_env :: env where
  "not_found_env = demo_env\<lparr>http_get := (\<lambda>url. HttpResponse 404 (Some ''{}''))\<rparr>"

definition refused_env :: env where
  "refused_env = demo_env\<lparr>http_get := (\<lambda>url. TransportFailure ''connection refused'')\<rparr>"

text \<open>A fan-out in which the first sub-task raises after its sleep, and the world in
  which it is started: the root span is open and is the current span.\<close>

definition failing_fan_out :: "coroutine list" where
  "failing_fan_out =
     [\<lparr>co_name = ''task1'', co_sleep = 100, co_raises = Some (TaskError ''boom'')\<rparr>,
      \<lparr>co_name = ''task2'', co_sleep = 400, co_raises = None\<rparr>,
      \<lparr>co_name = ''task3'', co_sleep = 250, co_raises = None\<rparr>]"

definition root_open :: world where
  "root_open = snd (start_span ''complex_operation'' [] (init_world 0))"

subsection \<open>Names for what the statements talk about\<close>

text \<open>The tasks that \<open>gather\<close> has spawned from a world with clock \<open>t\<close> and next span
  identifier \<open>n\<close>, the order in which the event loop wakes them, and what each one leaves
  behind when it has finished.\<close>

definition spawned :: "env \<Rightarrow> ctx_stack \<Rightarrow> nat \<Rightarrow> nat \<Rightarrow> pending list" where
  "spawned e ctx n t =
     [\<lparr>wake_at = t + task_sleep e ''task1'', task_span = n, task_ctx = n # ctx,
       task_name = ''task1'', task_raises = None\<rparr>,
      \<lparr>wake_at = t + task_sleep e ''task2'', task_span = n + 1, task_ctx = (n + 1) # ctx,
       task_name = ''task2'', task_raises = None\<rparr>,
      \<lparr>wake_at = t + task_sleep e ''task3'', task_span = n + 2, task_ctx = (n + 2) # ctx,
       task_name = ''task3'', task_raises = None\<rparr>]"

definition wake_sequence :: "env \<Rightarrow> ctx_stack \<Rightarrow> nat \<Rightarrow> nat \<Rightarrow> pending list" where
  "wake_sequence e ctx n t = sort_key wake_at (spawned e ctx n t)"

definition finished_span :: "ctx_stack \<Rightarrow> nat \<Rightarrow> pending \<Rightarrow> span" where
  "finished_span ctx t p =
     \<lparr>span_id = task_span p, parent_span_id = current_span ctx,
      span_name = ''async_'' @ task_name p, start_time = t,
      completion = Some (wake_at p, Success)\<rparr>"

definition finished_log :: "pending \<Rightarrow> nat option \<times> string" where
  "finished_log p = (Some (task_span p), ''Async operation '' @ task_name p @ '' completed'')"

definition longest_sleep :: "env \<Rightarrow> nat" where
  "longest_sleep e =
     max (task_sleep e ''task1'') (max (task_sleep e ''task2'') (task_sleep e ''task3''))"

text \<open>The clock when the fan-out starts and when its last task has finished.\<close>

definition fork_time :: "env \<Rightarrow> nat \<Rightarrow> nat" where
  "fork_time e t0 = t0 + db_sleep e + processing_sleep e"

definition join_time :: "env \<Rightarrow> nat \<Rightarrow> nat" where
  "join_time e t0 = fork_time e t0 + longest_sleep e"

text \<open>The trace that one invocation leaves behind, and ways to look at it. Its spans are
  the spans created through the module's tracer; the spans that the Flask and requests
  instrumentations add to what is emitted are not among them.\<close>

definition trace_of :: "env \<Rightarrow> nat \<Rightarrow> world" where
  "trace_of e t0 = snd (complex_operation e (init_world t0))"

definition status_of :: "span \<Rightarrow> status option" where
  "status_of s = map_option snd (completion s)"

definition spans_named :: "string \<Rightarrow> world \<Rightarrow> span list" where
  "spans_named nm w = filter (\<lambda>s. span_name s = nm) (spans w)"

definition descendant_spans :: "world \<Rightarrow> span list" where
  "descendant_spans w = filter (\<lambda>s. parent_span_id s \<noteq> None) (spans w)"

definition children_of :: "nat \<Rightarrow> world \<Rightarrow> span list" where
  "children_of sid w = filter (\<lambda>s. parent_span_id s = Some sid) (spans w)"

definition succeeded :: "error + 'a \<Rightarrow> bool" where
  "succeeded r = (case r of Inl _ \<Rightarrow> False | Inr _ \<Rightarrow> True)"

text \<open>A span is closed in order when it has an end time that is not before its start
  time. It lies within its parent when it has no parent, or the parent is in the table,
  both are completed, and the parent starts no later and ends no earlier.\<close>

definition closed_in_order :: "span \<Rightarrow> bool" where
  "closed_in_order s =
     (case completion s of None \<Rightarrow> False | Some (t, _) \<Rightarrow> start_time s \<le> t)"

definition within_parent :: "span list \<Rightarrow> span \<Rightarrow> bool" where
  "within_parent ss s =
     (case parent_span_id s of
        None \<Rightarrow> True
      | Some p \<Rightarrow>
          (case find (\<lambda>x. span_id x = p) ss of
             None \<Rightarrow> False
           | Some ps \<Rightarrow>
               (case completion ps of
                  None \<Rightarrow> False
                | Some (pe, _) \<Rightarrow>
                    (case completion s of
                       None \<Rightarrow> False
                     | Some (ce, _) \<Rightarrow> start_time ps \<le> start_time s \<and> ce \<le> pe))))"

text \<open>The execution paths of one invocation: the coroutine of the endpoint, and one task
  per sub-task, which inherits the root span from the context it was forked from. The
  events of a path are a stack discipline when every end closes the span opened last and
  nothing stays open.\<close>

definition main_path :: "string list" where
  "main_path = [''complex_operation'', ''database_query'', ''processing'',
                ''external_api_call'', ''final_computation'']"

definition branch_path :: "string \<Rightarrow> string list" where
  "branch_path nm = [''complex_operation'', ''async_'' @ nm]"

fun event_span :: "event \<Rightarrow> nat" where
  "event_span (SpanStart i) = i"
| "event_span (SpanEnd i) = i"

definition path_ids :: "string list \<Rightarrow> world \<Rightarrow> nat list" where
  "path_ids nms w = map span_id (filter (\<lambda>s. span_name s \<in> set nms) (spans w))"

definition path_events :: "string list \<Rightarrow> world \<Rightarrow> event list" where
  "path_events nms w = filter (\<lambda>ev. event_span ev \<in> set (path_ids nms w)) (events w)"

fun lifo :: "nat list \<Rightarrow> event list \<Rightarrow> bool" where
  "lifo stack [] = (stack = [])"
| "lifo stack (SpanStart i # evs) = lifo (i # stack) evs"
| "lifo stack (SpanEnd i # evs) =
     (case stack of [] \<Rightarrow> False | s # rest \<Rightarrow> s = i \<and> lifo rest evs)"

section \<open>Running the model\<close>

subsection \<open>The tracer steps on a world written out\<close>

lemma current_span_Nil: "current_span [] = None"
  by (simp add: current_span_def)

lemma current_span_Cons: "current_span (s # c) = Some s"
  by (simp add: current_span_def)

lemma start_span_rec:
  "start_span nm ctx \<lparr>now = t, next_span_id = n, spans = ss, events = es, submitted = sb,
       logs = ls, requests_made = rs\<rparr> =
     (n, \<lparr>now = t, next_span_id = n + 1,
          spans = ss @ [\<lparr>span_id = n, parent_span_id = current_span ctx, span_name = nm,
                         start_time = t, completion = None\<rparr>],
          events = es @ [SpanStart n], submitted = sb, logs = ls, requests_made = rs\<rparr>)"
  by (simp add: start_span_def)

lemma end_span_rec:
  "end_span sid st \<lparr>now = t, next_span_id = n, spans = ss, events = es, submitted = sb,
       logs = ls, requests_made = rs\<rparr> =
     (case find (\<lambda>s. span_id s = sid \<and> completion s = None) ss of
        None \<Rightarrow> \<lparr>now = t, next_span_id = n, spans = ss, events = es, submitted = sb,
                 logs = ls, requests_made = rs\<rparr>
      | Some s \<Rightarrow>
          \<lparr>now = t, next_span_id = n,
           spans = map (\<lambda>x. if span_id x = sid then s\<lparr>completion := Some (t, st)\<rparr> else x) ss,
           events = es @ [SpanEnd sid],
           submitted = sb @ [s\<lparr>completion := Some (t, st)\<rparr>],
           logs = ls, requests_made = rs\<rparr>)"
  by (simp add: end_span_def Let_def split: option.splits)

lemma sleep_rec:
  "sleep d \<lparr>now = t, next_span_id = n, spans = ss, events = es, submitted = sb,
       logs = ls, requests_made = rs\<rparr> =
     \<lparr>now = t + d, next_span_id = n, spans = ss, events = es, submitted = sb,
       logs = ls, requests_made = rs\<rparr>"
  by (simp add: sleep_def)

lemma log_info_rec:
  "log_info msg ctx \<lparr>now = t, next_span_id = n, spans = ss, events = es, submitted = sb,
       logs = ls, requests_made = rs\<rparr> =
     \<lparr>now = t, next_span_id = n, spans = ss, events = es, submitted = sb,
       logs = ls @ [(current_span ctx, msg)], requests_made = rs\<rparr>"
  by (simp add: log_info_def)

text \<open>Spans created earlier have smaller identifiers, so ending a new span passes them by.\<close>

lemma find_older:
  "\<forall>s\<in>set ss. span_id s < n \<Longrightarrow> n \<le> k \<Longrightarrow>
     find (\<lambda>s. span_id s = k \<and> completion s = None) (ss @ xs) =
     find (\<lambda>s. span_id s = k \<and> completion s = None) xs"
  by (induction ss) auto

lemma map_older:
  "\<forall>s\<in>set ss. span_id s < n \<Longrightarrow> n \<le> k \<Longrightarrow>
     map (\<lambda>x. if span_id x = k then y else x) ss = ss"
  by (induction ss) auto

subsection \<open>The fan-out\<close>

lemma spawn_all_rec:
  "spawn_all (map (\<lambda>nm. async_operation nm e) task_names) ctx
       \<lparr>now = t, next_span_id = n, spans = ss, events = es,
        submitted = sb, logs = ls, requests_made = rs\<rparr> =
     (spawned e ctx n t,
      \<lparr>now = t, next_span_id = n + 3,
       spans = ss @ [\<lparr>span_id = n, parent_span_id = current_span ctx,
                       span_name = ''async_task1'', start_time = t, completion = None\<rparr>,
                     \<lparr>span_id = n + 1, parent_span_id = current_span ctx,
                       span_name = ''async_task2'', start_time = t, completion = None\<rparr>,
                     \<lparr>span_id = n + 2, parent_span_id = current_span ctx,
                       span_name = ''async_task3'', start_time = t, completion = None\<rparr>],
       events = es @ [SpanStart n, SpanStart (n + 1), SpanStart (n + 2)],
       submitted = sb, logs = ls, requests_made = rs\<rparr>)"
  by (simp add: task_names_def async_operation_def async_operation_begin_def start_span_rec
        spawned_def)

lemma sort3:
  "sort_key f [a, b, c] =
     (if f b \<le> f c
      then (if f a \<le> f b then [a, b, c] else if f a \<le> f c then [b, a, c] else [b, c, a])
      else (if f a \<le> f c then [a, c, b] else if f a \<le> f b then [c, a, b] else [c, b, a]))"
  by simp

lemmas gather_eval = spawned_def sort3 async_operation_resume_def log_info_rec end_span_rec
  finished_span_def finished_log_def current_span_Cons longest_sleep_def max_def

text \<open>What \<open>gather\<close> does to a world whose spans are all older than the next identifier.
  The proof runs the three tasks in each of the six orders in which they can wake.\<close>

lemma gather_rec:
  assumes older: "\<forall>s\<in>set ss. span_id s < n"
  shows "gather (map (\<lambda>nm. async_operation nm e) task_names) ctx
       \<lparr>now = t, next_span_id = n, spans = ss, events = es,
        submitted = sb, logs = ls, requests_made = rs\<rparr> =
     (Inr (),
      \<lparr>now = t + longest_sleep e, next_span_id = n + 3,
      spans = ss @ [\<lparr>span_id = n, parent_span_id = current_span ctx,
                      span_name = ''async_task1'', start_time = t,
                      completion = Some (t + task_sleep e ''task1'', Success)\<rparr>,
                    \<lparr>span_id = n + 1, parent_span_id = current_span ctx,
                      span_name = ''async_task2'', start_time = t,
                      completion = Some (t + task_sleep e ''task2'', Success)\<rparr>,
                    \<lparr>span_id = n + 2, parent_span_id = current_span ctx,
                      span_name = ''async_task3'', start_time = t,
                      completion = Some (t + task_sleep e ''task3'', Success)\<rparr>],
      events = es @ [SpanStart n, SpanStart (n + 1), SpanStart (n + 2)] @
               map (\<lambda>p. SpanEnd (task_span p)) (wake_sequence e ctx n t),
      submitted = sb @ map (finished_span ctx t) (wake_sequence e ctx n t),
      logs = ls @ map finished_log (wake_sequence e ctx n t),
      requests_made = rs\<rparr>)"
proof -
  let ?d1 = "task_sleep e ''task1''" and ?d2 = "task_sleep e ''task2''"
    and ?d3 = "task_sleep e ''task3''"
  consider (a) "?d2 \<le> ?d3" "?d1 \<le> ?d2"
    | (b) "?d2 \<le> ?d3" "\<not> ?d1 \<le> ?d2" "?d1 \<le> ?d3"
    | (c) "?d2 \<le> ?d3" "\<not> ?d1 \<le> ?d2" "\<not> ?d1 \<le> ?d3"
    | (d) "\<not> ?d2 \<le> ?d3" "?d1 \<le> ?d3"
    | (f) "\<not> ?d2 \<le> ?d3" "\<not> ?d1 \<le> ?d3" "?d1 \<le> ?d2"
    | (g) "\<not> ?d2 \<le> ?d3" "\<not> ?d1 \<le> ?d3" "\<not> ?d1 \<le> ?d2"
    by blast
  then show ?thesis
  proof cases
    case a
    with older show ?thesis
      unfolding gather_def spawn_all_rec wake_sequence_def
      by (simp add: gather_eval find_older [where n = n] map_older [where n = n]
            del: sort_key_simps split del: if_split)
  next
    case b
    with older show ?thesis
      unfolding gather_def spawn_all_rec wake_sequence_def
      by (simp add: gather_eval find_older [where n = n] map_older [where n = n]
            del: sort_key_simps split del: if_split)
  next
    case c
    with older show ?thesis
      unfolding gather_def spawn_all_rec wake_sequence_def
      by (simp add: gather_eval find_older [where n = n] map_older [where n = n]
            del: sort_key_simps split del: if_split)
  next
    case d
    with older show ?thesis
      unfolding gather_def spawn_all_rec wake_sequence_def
      by (simp add: gather_eval find_older [where n = n] map_older [where n = n]
            del: sort_key_simps split del: if_split)
  next
    case f
    with older show ?thesis
      unfolding gather_def spawn_all_rec wake_sequence_def
      by (simp add: gather_eval find_older [where n = n] map_older [where n = n]
            del: sort_key_simps split del: if_split)
  next
    case g
    with older show ?thesis
      unfolding gather_def spawn_all_rec wake_sequence_def
      by (simp add: gather_eval find_older [where n = n] map_older [where n = n]
            del: sort_key_simps split del: if_split)
  qed
qed

text \<open>The wake order is a rearrangement of the spawned tasks, and a selection from it is
  the wake order of the selection.\<close>

lemma set_wake_sequence: "set (wake_sequence e ctx n t) = set (spawned e ctx n t)"
  by (simp add: wake_sequence_def del: sort_key_simps)

lemma length_wake_sequence: "length (wake_sequence e ctx n t) = 3"
  by (simp add: wake_sequence_def spawned_def del: sort_key_simps)

lemma filter_wake_sequence:
  "filter P (map f (wake_sequence e ctx n t)) =
     map f (sort_key wake_at (filter (P \<circ> f) (spawned e ctx n t)))"
  by (simp add: wake_sequence_def filter_map filter_sort del: sort_key_simps)

lemma task_spans_wake_sequence:
  "set (map task_span (wake_sequence e ctx n t)) = {n, n + 1, n + 2}"
  by (auto simp add: set_wake_sequence spawned_def)

lemma distinct_task_spans_wake_sequence:
  "distinct (map task_span (wake_sequence e ctx n t))"
proof -
  have "card (set (map task_span (wake_sequence e ctx n t))) = 3"
    unfolding task_spans_wake_sequence by simp
  then show ?thesis
    by (simp add: card_distinct length_wake_sequence)
qed

text \<open>The ends of the sub-task spans, the spans handed over by the sub-tasks, and the
  longest of the three sleeps.\<close>

lemma ends_wake_sequence:
  "(\<lambda>p. SpanEnd (task_span p)) ` set (wake_sequence e ctx n t) =
     {SpanEnd n, SpanEnd (n + 1), SpanEnd (n + 2)}"
  by (auto simp add: set_wake_sequence spawned_def)

lemma submitted_wake_sequence:
  "finished_span ctx t ` set (wake_sequence e ctx n t) =
     {\<lparr>span_id = n, parent_span_id = current_span ctx, span_name = ''async_task1'',
       start_time = t, completion = Some (t + task_sleep e ''task1'', Success)\<rparr>,
      \<lparr>span_id = n + 1, parent_span_id = current_span ctx, span_name = ''async_task2'',
       start_time = t, completion = Some (t + task_sleep e ''task2'', Success)\<rparr>,
      \<lparr>span_id = n + 2, parent_span_id = current_span ctx, span_name = ''async_task3'',
       start_time = t, completion = Some (t + task_sleep e ''task3'', Success)\<rparr>}"
  by (simp add: set_wake_sequence spawned_def finished_span_def)

lemma task_sleep_le_longest:
  "task_sleep e ''task1'' \<le> longest_sleep e"
  "task_sleep e ''task2'' \<le> longest_sleep e"
  "task_sleep e ''task3'' \<le> longest_sleep e"
  by (simp_all add: longest_sleep_def)

lemma longest_sleep_cases:
  "longest_sleep e \<in> {task_sleep e ''task1'', task_sleep e ''task2'', task_sleep e ''task3''}"
  by (simp add: longest_sleep_def max_def)

subsection \<open>The fan-out of any coroutines\<close>

text \<open>The clock moves only when a task is woken.\<close>

lemma now_start_span: "now (snd (start_span nm ctx w)) = now w"
  by (simp add: start_span_def Let_def)

lemma now_end_span: "now (end_span sid st w) = now w"
  by (simp add: end_span_def Let_def split: option.split)

lemma now_log_info: "now (log_info msg ctx w) = now w"
  by (simp add: log_info_def)

lemma now_async_operation_resume: "now (snd (async_operation_resume p w)) = now w"
  by (simp add: async_operation_resume_def now_end_span now_log_info split: option.split)

text \<open>Waking one task: a task that raises ends the run, any other hands on to the next.\<close>

lemma run_pending_Cons:
  "run_pending (p # ps) w =
     (case task_raises p of
        None \<Rightarrow> run_pending ps (snd (async_operation_resume p (w\<lparr>now := max (now w) (wake_at p)\<rparr>)))
      | Some err \<Rightarrow> (Inl err, snd (async_operation_resume p (w\<lparr>now := max (now w) (wake_at p)\<rparr>))))"
  by (simp add: async_operation_resume_def split: option.split)

text \<open>When no task raises, every task is woken and the clock ends at or after each
  wake-up time.\<close>

lemma run_pending_joins:
  "\<forall>p\<in>set ps. task_raises p = None \<Longrightarrow>
     fst (run_pending ps w) = Inr () \<and> now w \<le> now (snd (run_pending ps w)) \<and>
     (\<forall>p\<in>set ps. wake_at p \<le> now (snd (run_pending ps w)))"
proof (induction ps arbitrary: w)
  case Nil
  then show ?case by simp
next
  case (Cons p ps)
  let ?w1 = "snd (async_operation_resume p (w\<lparr>now := max (now w) (wake_at p)\<rparr>))"
  from Cons.prems have none: "task_raises p = None" and rest: "\<forall>p\<in>set ps. task_raises p = None"
    by simp_all
  have now1: "now ?w1 = max (now w) (wake_at p)"
    by (simp add: now_async_operation_resume)
  from none have step: "run_pending (p # ps) w = run_pending ps ?w1"
    by (simp add: run_pending_Cons del: run_pending.simps)
  from Cons.IH [OF rest, of ?w1] now1 show ?case
    unfolding step by auto
qed

text \<open>When some task raises and the tasks are woken in the order of their wake-up
  times, the run ends with the exception of a task that raises, at that task's wake-up
  time.\<close>

lemma run_pending_raises:
  "sorted (map wake_at ps) \<Longrightarrow> \<forall>p\<in>set ps. now w \<le> wake_at p \<Longrightarrow>
   \<exists>p\<in>set ps. task_raises p \<noteq> None \<Longrightarrow>
     \<exists>p\<in>set ps. \<exists>err. task_raises p = Some err \<and> fst (run_pending ps w) = Inl err \<and>
        now (snd (run_pending ps w)) = wake_at p"
proof (induction ps arbitrary: w)
  case Nil
  then show ?case by simp
next
  case (Cons p ps)
  let ?w1 = "snd (async_operation_resume p (w\<lparr>now := max (now w) (wake_at p)\<rparr>))"
  from Cons.prems(2) have now1: "now ?w1 = wake_at p"
    by (simp add: now_async_operation_resume max_def)
  show ?case
  proof (cases "task_raises p")
    case (Some err)
    with now1 show ?thesis
      by (simp add: run_pending_Cons del: run_pending.simps)
  next
    case None
    then have step: "run_pending (p # ps) w = run_pending ps ?w1"
      by (simp add: run_pending_Cons del: run_pending.simps)
    from Cons.prems(1) have s: "sorted (map wake_at ps)" and le: "\<forall>q\<in>set ps. now ?w1 \<le> wake_at q"
      using now1 by simp_all
    from Cons.prems(3) None have ex: "\<exists>q\<in>set ps. task_raises q \<noteq> None"
      by auto
    from Cons.IH [OF s le ex] show ?thesis
      unfolding step by auto
  qed
qed

text \<open>Every coroutine becomes a task that wakes after the coroutine's sleep and raises
  what the coroutine raises.\<close>

lemma spawn_all_tasks:
  "map (\<lambda>p. (wake_at p, task_raises p)) (fst (spawn_all cos ctx w)) =
     map (\<lambda>co. (now w + co_sleep co, co_raises co)) cos \<and>
   now (snd (spawn_all cos ctx w)) = now w"
proof (induction cos arbitrary: w)
  case Nil
  then show ?case by simp
next
  case (Cons co cos)
  let ?w1 = "snd (async_operation_begin co ctx w)"
  have now1: "now ?w1 = now w"
    by (simp add: async_operation_begin_def start_span_def Let_def)
  have p: "wake_at (fst (async_operation_begin co ctx w)) = now w + co_sleep co \<and>
           task_raises (fst (async_operation_begin co ctx w)) = co_raises co"
    by (simp add: async_operation_begin_def start_span_def Let_def)
  from Cons.IH [of ?w1] now1 p show ?case
    by (simp add: split_beta)
qed

text \<open>\<open>gather\<close> returns normally, at or after every wake-up time, when no coroutine
  raises, and otherwise raises at the wake-up time of a coroutine that raises.\<close>

lemma gather_result:
  "if \<forall>co\<in>set cos. co_raises co = None
   then fst (gather cos ctx w) = Inr () \<and>
        (\<forall>co\<in>set cos. now w + co_sleep co \<le> now (snd (gather cos ctx w)))
   else \<exists>co\<in>set cos. \<exists>err. co_raises co = Some err \<and> fst (gather cos ctx w) = Inl err \<and>
          now (snd (gather cos ctx w)) = now w + co_sleep co"
proof -
  let ?ps = "fst (spawn_all cos ctx w)" and ?w1 = "snd (spawn_all cos ctx w)"
  let ?qs = "sort_key wake_at ?ps"
  have g: "gather cos ctx w = run_pending ?qs ?w1"
    by (simp add: gather_def split_beta)
  have now1: "now ?w1 = now w"
    by (simp add: spawn_all_tasks)
  have "set (map (\<lambda>p. (wake_at p, task_raises p)) ?ps) =
        set (map (\<lambda>co. (now w + co_sleep co, co_raises co)) cos)"
    by (simp only: spawn_all_tasks)
  then have img: "(\<lambda>p. (wake_at p, task_raises p)) ` set ?qs =
        (\<lambda>co. (now w + co_sleep co, co_raises co)) ` set cos"
    by simp
  have to_co: "\<exists>co\<in>set cos. wake_at p = now w + co_sleep co \<and> task_raises p = co_raises co"
    if "p \<in> set ?qs" for p
  proof -
    from that have "(wake_at p, task_raises p) \<in>
        (\<lambda>co. (now w + co_sleep co, co_raises co)) ` set cos"
      unfolding img [symmetric] by blast
    then show ?thesis by force
  qed
  have to_p: "\<exists>p\<in>set ?qs. wake_at p = now w + co_sleep co \<and> task_raises p = co_raises co"
    if "co \<in> set cos" for co
  proof -
    from that have "(now w + co_sleep co, co_raises co) \<in>
        (\<lambda>p. (wake_at p, task_raises p)) ` set ?qs"
      unfolding img by blast
    then show ?thesis by force
  qed
  show ?thesis
  proof (cases "\<forall>co\<in>set cos. co_raises co = None")
    case True
    have "\<forall>p\<in>set ?qs. task_raises p = None"
      using to_co True by metis
    from run_pending_joins [OF this, of ?w1] have
      r: "fst (run_pending ?qs ?w1) = Inr ()" and
      le: "\<And>p. p \<in> set ?qs \<Longrightarrow> wake_at p \<le> now (snd (run_pending ?qs ?w1))"
      by blast+
    have "now w + co_sleep co \<le> now (snd (run_pending ?qs ?w1))" if "co \<in> set cos" for co
      using to_p [OF that] le by metis
    with r True show ?thesis
      unfolding g by simp
  next
    case False
    then obtain co where co: "co \<in> set cos" "co_raises co \<noteq> None"
      by blast
    have ex: "\<exists>p\<in>set ?qs. task_raises p \<noteq> None"
      using to_p [OF co(1)] co(2) by metis
    have s: "sorted (map wake_at ?qs)"
      by simp
    have le: "\<forall>p\<in>set ?qs. now ?w1 \<le> wake_at p"
      using to_co now1 by (metis le_add1)
    from run_pending_raises [OF s le ex] obtain p err where
      p: "p \<in> set ?qs" "task_raises p = Some err" "fst (run_pending ?qs ?w1) = Inl err"
         "now (snd (run_pending ?qs ?w1)) = wake_at p"
      by blast
    from to_co [OF p(1)] p(2-4) have
      "\<exists>co\<in>set cos. \<exists>err. co_raises co = Some err \<and> fst (run_pending ?qs ?w1) = Inl err \<and>
          now (snd (run_pending ?qs ?w1)) = now w + co_sleep co"
      by metis
    with False show ?thesis
      unfolding g by auto
  qed
qed

subsection \<open>The three ways an invocation can go\<close>

text \<open>The result and the whole trace of one invocation, for each outcome of the HTTP
  request: a response with a JSON body, a transport failure, a response whose body is
  not JSON.\<close>

lemmas run_eval = complex_operation_def with_span_def and_then_def external_api_call_def
  init_world_def start_span_rec end_span_rec sleep_rec log_info_rec gather_rec
  current_span_Cons current_span_Nil fork_time_def join_time_def Let_def numeral_3_eq_3

lemma run_ok:
  assumes "http_get e api_url = HttpResponse code (Some j)"
  shows "complex_operation e (init_world t0) =
    (Inr \<lparr>message = ''Complex operation completed'', external_data = j\<rparr>,
     \<lparr>now = join_time e t0 + http_duration e + final_sleep e, next_span_id = 8,
      spans =
        [\<lparr>span_id = 0, parent_span_id = None, span_name = ''complex_operation'',
           start_time = t0, completion = Some (join_time e t0 + http_duration e + final_sleep e, Success)\<rparr>,
         \<lparr>span_id = 1, parent_span_id = Some 0, span_name = ''database_query'',
           start_time = t0, completion = Some (t0 + db_sleep e, Success)\<rparr>,
         \<lparr>span_id = 2, parent_span_id = Some 0, span_name = ''processing'',
           start_time = t0 + db_sleep e, completion = Some (fork_time e t0, Success)\<rparr>,
         \<lparr>span_id = 3, parent_span_id = Some 0, span_name = ''async_task1'',
           start_time = fork_time e t0,
           completion = Some (fork_time e t0 + task_sleep e ''task1'', Success)\<rparr>,
         \<lparr>span_id = 4, parent_span_id = Some 0, span_name = ''async_task2'',
           start_time = fork_time e t0,
           completion = Some (fork_time e t0 + task_sleep e ''task2'', Success)\<rparr>,
         \<lparr>span_id = 5, parent_span_id = Some 0, span_name = ''async_task3'',
           start_time = fork_time e t0,
           completion = Some (fork_time e t0 + task_sleep e ''task3'', Success)\<rparr>,
         \<lparr>span_id = 6, parent_span_id = Some 0, span_name = ''external_api_call'',
           start_time = join_time e t0,
           completion = Some (join_time e t0 + http_duration e, Success)\<rparr>,
         \<lparr>span_id = 7, parent_span_id = Some 0, span_name = ''final_computation'',
           start_time = join_time e t0 + http_duration e,
           completion = Some (join_time e t0 + http_duration e + final_sleep e, Success)\<rparr>],
      events =
        [SpanStart 0, SpanStart 1, SpanEnd 1, SpanStart 2, SpanEnd 2,
         SpanStart 3, SpanStart 4, SpanStart 5] @
        map (\<lambda>p. SpanEnd (task_span p)) (wake_sequence e [0] 3 (fork_time e t0)) @
        [SpanStart 6, SpanEnd 6, SpanStart 7, SpanEnd 7, SpanEnd 0],
      submitted =
        [\<lparr>span_id = 1, parent_span_id = Some 0, span_name = ''database_query'',
           start_time = t0, completion = Some (t0 + db_sleep e, Success)\<rparr>,
         \<lparr>span_id = 2, parent_span_id = Some 0, span_name = ''processing'',
           start_time = t0 + db_sleep e, completion = Some (fork_time e t0, Success)\<rparr>] @
        map (finished_span [0] (fork_time e t0)) (wake_sequence e [0] 3 (fork_time e t0)) @
        [\<lparr>span_id = 6, parent_span_id = Some 0, span_name = ''external_api_call'',
           start_time = join_time e t0,
           completion = Some (join_time e t0 + http_duration e, Success)\<rparr>,
         \<lparr>span_id = 7, parent_span_id = Some 0, span_name = ''final_computation'',
           start_time = join_time e t0 + http_duration e,
           completion = Some (join_time e t0 + http_duration e + final_sleep e, Success)\<rparr>,
         \<lparr>span_id = 0, parent_span_id = None, span_name = ''complex_operation'',
           start_time = t0, completion = Some (join_time e t0 + http_duration e + final_sleep e, Success)\<rparr>],
      logs =
        [(Some 0, ''Starting complex operation''), (Some 1, ''Database query completed''),
         (Some 2, ''Data processing completed'')] @
        map finished_log (wake_sequence e [0] 3 (fork_time e t0)) @
        [(Some 6, ''External API call to '' @ api_url @ '' completed with status '' @
                  show_nat code),
         (Some 7, ''Final computation completed'')],
      requests_made = [api_url]\<rparr>)"
  using assms by (simp add: run_eval)

lemma run_transport_failure:
  assumes "http_get e api_url = TransportFailure d"
  shows "complex_operation e (init_world t0) =
    (Inl (RequestException d),
     \<lparr>now = join_time e t0 + http_duration e, next_span_id = 7,
      spans =
        [\<lparr>span_id = 0, parent_span_id = None, span_name = ''complex_operation'',
           start_time = t0, completion = Some (join_time e t0 + http_duration e, Error (RequestException d))\<rparr>,
         \<lparr>span_id = 1, parent_span_id = Some 0, span_name = ''database_query'',
           start_time = t0, completion = Some (t0 + db_sleep e, Success)\<rparr>,
         \<lparr>span_id = 2, parent_span_id = Some 0, span_name = ''processing'',
           start_time = t0 + db_sleep e, completion = Some (fork_time e t0, Success)\<rparr>,
         \<lparr>span_id = 3, parent_span_id = Some 0, span_name = ''async_task1'',
           start_time = fork_time e t0,
           completion = Some (fork_time e t0 + task_sleep e ''task1'', Success)\<rparr>,
         \<lparr>span_id = 4, parent_span_id = Some 0, span_name = ''async_task2'',
           start_time = fork_time e t0,
           completion = Some (fork_time e t0 + task_sleep e ''task2'', Success)\<rparr>,
         \<lparr>span_id = 5, parent_span_id = Some 0, span_name = ''async_task3'',
           start_time = fork_time e t0,
           completion = Some (fork_time e t0 + task_sleep e ''task3'', Success)\<rparr>,
         \<lparr>span_id = 6, parent_span_id = Some 0, span_name = ''external_api_call'',
           start_time = join_time e t0,
           completion = Some (join_time e t0 + http_duration e, Error (RequestException d))\<rparr>],
      events =
        [SpanStart 0, SpanStart 1, SpanEnd 1, SpanStart 2, SpanEnd 2,
         SpanStart 3, SpanStart 4, SpanStart 5] @
        map (\<lambda>p. SpanEnd (task_span p)) (wake_sequence e [0] 3 (fork_time e t0)) @
        [SpanStart 6, SpanEnd 6, SpanEnd 0],
      submitted =
        [\<lparr>span_id = 1, parent_span_id = Some 0, span_name = ''database_query'',
           start_time = t0, completion = Some (t0 + db_sleep e, Success)\<rparr>,
         \<lparr>span_id = 2, parent_span_id = Some 0, span_name = ''processing'',
           start_time = t0 + db_sleep e, completion = Some (fork_time e t0, Success)\<rparr>] @
        map (finished_span [0] (fork_time e t0)) (wake_sequence e [0] 3 (fork_time e t0)) @
        [\<lparr>span_id = 6, parent_span_id = Some 0, span_name = ''external_api_call'',
           start_time = join_time e t0,
           completion = Some (join_time e t0 + http_duration e, Error (RequestException d))\<rparr>,
         \<lparr>span_id = 0, parent_span_id = None, span_name = ''complex_operation'',
           start_time = t0, completion = Some (join_time e t0 + http_duration e, Error (RequestException d))\<rparr>],
      logs =
        [(Some 0, ''Starting complex operation''), (Some 1, ''Database query completed''),
         (Some 2, ''Data processing completed'')] @
        map finished_log (wake_sequence e [0] 3 (fork_time e t0)),
      requests_made = [api_url]\<rparr>)"
  using assms by (simp add: run_eval)

lemma run_bad_json:
  assumes "http_get e api_url = HttpResponse code None"
  shows "complex_operation e (init_world t0) =
    (Inl (JSONDecodeError),
     \<lparr>now = join_time e t0 + http_duration e, next_span_id = 7,
      spans =
        [\<lparr>span_id = 0, parent_span_id = None, span_name = ''complex_operation'',
           start_time = t0, completion = Some (join_time e t0 + http_duration e, Error (JSONDecodeError))\<rparr>,
         \<lparr>span_id = 1, parent_span_id = Some 0, span_name = ''database_query'',
           start_time = t0, completion = Some (t0 + db_sleep e, Success)\<rparr>,
         \<lparr>span_id = 2, parent_span_id = Some 0, span_name = ''processing'',
           start_time = t0 + db_sleep e, completion = Some (fork_time e t0, Success)\<rparr>,
         \<lparr>span_id = 3, parent_span_id = Some 0, span_name = ''async_task1'',
           start_time = fork_time e t0,
           completion = Some (fork_time e t0 + task_sleep e ''task1'', Success)\<rparr>,
         \<lparr>span_id = 4, parent_span_id = Some 0, span_name = ''async_task2'',
           start_time = fork_time e t0,
           completion = Some (fork_time e t0 + task_sleep e ''task2'', Success)\<rparr>,
         \<lparr>span_id = 5, parent_span_id = Some 0, span_name = ''async_task3'',
           start_time = fork_time e t0,
           completion = Some (fork_time e t0 + task_sleep e ''task3'', Success)\<rparr>,
         \<lparr>span_id = 6, parent_span_id = Some 0, span_name = ''external_api_call'',
           start_time = join_time e t0,
           completion = Some (join_time e t0 + http_duration e, Error (JSONDecodeError))\<rparr>],
      events =
        [SpanStart 0, SpanStart 1, SpanEnd 1, SpanStart 2, SpanEnd 2,
         SpanStart 3, SpanStart 4, SpanStart 5] @
        map (\<lambda>p. SpanEnd (task_span p)) (wake_sequence e [0] 3 (fork_time e t0)) @
        [SpanStart 6, SpanEnd 6, SpanEnd 0],
      submitted =
        [\<lparr>span_id = 1, parent_span_id = Some 0, span_name = ''database_query'',
           start_time = t0, completion = Some (t0 + db_sleep e, Success)\<rparr>,
         \<lparr>span_id = 2, parent_span_id = Some 0, span_name = ''processing'',
           start_time = t0 + db_sleep e, completion = Some (fork_time e t0, Success)\<rparr>] @
        map (finished_span [0] (fork_time e t0)) (wake_sequence e [0] 3 (fork_time e t0)) @
        [\<lparr>span_id = 6, parent_span_id = Some 0, span_name = ''external_api_call'',
           start_time = join_time e t0,
           completion = Some (join_time e t0 + http_duration e, Error (JSONDecodeError))\<rparr>,
         \<lparr>span_id = 0, parent_span_id = None, span_name = ''complex_operation'',
           start_time = t0, completion = Some (join_time e t0 + http_duration e, Error (JSONDecodeError))\<rparr>],
      logs =
        [(Some 0, ''Starting complex operation''), (Some 1, ''Database query completed''),
         (Some 2, ''Data processing completed'')] @
        map finished_log (wake_sequence e [0] 3 (fork_time e t0)) @
        [(Some 6, ''External API call to '' @ api_url @ '' completed with status '' @
                  show_nat code)],
      requests_made = [api_url]\<rparr>)"
  using assms by (simp add: run_eval)

section \<open>The claims\<close>

subsection \<open>C1: the trace and the response of a successful invocation\<close>

text \<open>
  C1, as stated: when every phase succeeds, the emitted trace is a root span plus 6
  descendant spans, all with status success, and the response carries the message and
  the external data. In \<open>demo_env\<close> every phase succeeds and the span
  \<open>complex_operation\<close> has seven children, so that its descendants are not six: the
  three sub-tasks have a span each, named \<open>async_task1\<close> to \<open>async_task3\<close>, and the
  external call's span is named \<open>external_api_call\<close>.
\<close>

theorem successful_run_six_descendants_counterexample:
  "succeeded (fst (complex_operation demo_env (init_world 0))) \<and>
   map (\<lambda>s. (span_id s, span_name s)) (spans_named ''complex_operation'' (trace_of demo_env 0)) =
     [(0, ''complex_operation'')] \<and>
   map span_name (children_of 0 (trace_of demo_env 0)) =
     [''database_query'', ''processing'', ''async_task1'', ''async_task2'', ''async_task3'',
      ''external_api_call'', ''final_computation''] \<and>
   length (children_of 0 (trace_of demo_env 0)) \<noteq> 6"
proof -
  have "http_get demo_env api_url = HttpResponse 200 (Some ''{id: 1}'')"
    by (simp add: demo_env_def)
  then show ?thesis
    by (simp add: trace_of_def run_ok children_of_def spans_named_def succeeded_def)
qed

text \<open>
  C1, amended: for every invocation in which every phase succeeds (the HTTP request
  returns a response whose body is JSON; no other phase can fail), the spans that the
  module creates are the span \<open>complex_operation\<close> and 7 spans that are its direct
  children, \<open>database_query\<close>, \<open>processing\<close>, \<open>async_task1\<close>, \<open>async_task2\<close>,
  \<open>async_task3\<close>, \<open>external_api_call\<close> and \<open>final_computation\<close>, all eight with status
  success, and the operation returns the message \<open>Complex operation completed\<close> with
  the decoded body as external data. The spans that the Flask and requests
  instrumentations add to the emitted trace are not counted.
\<close>

theorem successful_run_trace:
  assumes "http_get e api_url = HttpResponse code (Some j)"
  shows "fst (complex_operation e (init_world t0)) =
           Inr \<lparr>message = ''Complex operation completed'', external_data = j\<rparr> \<and>
         map (\<lambda>s. (span_id s, status_of s)) (spans_named ''complex_operation'' (trace_of e t0)) =
           [(0, Some Success)] \<and>
         map (\<lambda>s. (span_name s, status_of s)) (children_of 0 (trace_of e t0)) =
           [(''database_query'', Some Success), (''processing'', Some Success),
            (''async_task1'', Some Success), (''async_task2'', Some Success),
            (''async_task3'', Some Success), (''external_api_call'', Some Success),
            (''final_computation'', Some Success)] \<and>
         length (children_of 0 (trace_of e t0)) = 7 \<and>
         spans (trace_of e t0) =
           spans_named ''complex_operation'' (trace_of e t0) @ children_of 0 (trace_of e t0)"
  using assms
  by (simp add: trace_of_def run_ok children_of_def spans_named_def status_of_def)

theorem successful_run_trace_witness:
  "http_get demo_env api_url = HttpResponse 200 (Some ''{id: 1}'') \<and>
   fst (complex_operation demo_env (init_world 0)) =
     Inr \<lparr>message = ''Complex operation completed'', external_data = ''{id: 1}''\<rparr> \<and>
   map (\<lambda>s. (span_id s, status_of s)) (spans_named ''complex_operation'' (trace_of demo_env 0)) =
     [(0, Some Success)] \<and>
   map (\<lambda>s. (span_name s, status_of s)) (children_of 0 (trace_of demo_env 0)) =
     [(''database_query'', Some Success), (''processing'', Some Success),
      (''async_task1'', Some Success), (''async_task2'', Some Success),
      (''async_task3'', Some Success), (''external_api_call'', Some Success),
      (''final_computation'', Some Success)] \<and>
   length (children_of 0 (trace_of demo_env 0)) = 7"
proof -
  have h: "http_get demo_env api_url = HttpResponse 200 (Some ''{id: 1}'')"
    by (simp add: demo_env_def)
  show ?thesis
    using h successful_run_trace [OF h, of 0] by simp
qed

subsection \<open>C2: a failing external call\<close>

text \<open>
  C2, as stated: when the external call's outcome is a transport failure or a non-2xx
  HTTP status, its span is marked error, an error comes back without a retry, the
  \<open>final_computation\<close> span is never created and the response is an error without
  external data. In \<open>not_found_env\<close> the API answers 404 with a JSON body:
  \<open>external_api_call\<close> logs the status and never looks at it again, so its span ends
  with status success, \<open>final_computation\<close> runs, and the response carries the body
  of the 404 as external data.
\<close>

theorem non_2xx_status_counterexample:
  "http_get not_found_env api_url = HttpResponse 404 (Some ''{}'') \<and>
   fst (complex_operation not_found_env (init_world 0)) =
     Inr \<lparr>message = ''Complex operation completed'', external_data = ''{}''\<rparr> \<and>
   map status_of (spans_named ''external_api_call'' (trace_of not_found_env 0)) =
     [Some Success] \<and>
   map span_name (spans_named ''final_computation'' (trace_of not_found_env 0)) =
     [''final_computation'']"
proof -
  have "http_get not_found_env api_url = HttpResponse 404 (Some ''{}'')"
    by (simp add: not_found_env_def demo_env_def)
  then show ?thesis
    by (simp add: trace_of_def run_ok spans_named_def status_of_def)
qed

text \<open>
  C2, amended: for every invocation in which the external call raises, because the
  request fails in transport or because the body of the response is not JSON, the
  \<open>external_api_call\<close> span is marked error with that exception, the exception comes
  back to the caller of the endpoint after exactly one request (no retry), the
  \<open>final_computation\<close> span is never created, and the result is that error, with no
  external data. The HTTP status of a response plays no part.
\<close>

theorem failing_external_call:
  assumes "http_get e api_url = TransportFailure d \<or> http_get e api_url = HttpResponse code None"
  shows "\<exists>err. fst (complex_operation e (init_world t0)) = Inl err \<and>
           map status_of (spans_named ''external_api_call'' (trace_of e t0)) =
             [Some (Error err)] \<and>
           requests_made (trace_of e t0) = [api_url] \<and>
           spans_named ''final_computation'' (trace_of e t0) = []"
  using assms
proof
  assume "http_get e api_url = TransportFailure d"
  then show ?thesis
    by (simp add: trace_of_def run_transport_failure spans_named_def status_of_def)
next
  assume "http_get e api_url = HttpResponse code None"
  then show ?thesis
    by (simp add: trace_of_def run_bad_json spans_named_def status_of_def)
qed

theorem failing_external_call_witness:
  "http_get refused_env api_url = TransportFailure ''connection refused'' \<and>
   (\<exists>err. fst (complex_operation refused_env (init_world 0)) = Inl err \<and>
      map status_of (spans_named ''external_api_call'' (trace_of refused_env 0)) =
        [Some (Error err)] \<and>
      requests_made (trace_of refused_env 0) = [api_url] \<and>
      spans_named ''final_computation'' (trace_of refused_env 0) = [])"
proof -
  have h: "http_get refused_env api_url = TransportFailure ''connection refused''"
    by (simp add: refused_env_def demo_env_def)
  then have "http_get refused_env api_url = TransportFailure ''connection refused'' \<or>
             http_get refused_env api_url = HttpResponse 0 None"
    by simp
  from failing_external_call [OF this, of 0] h show ?thesis
    by simp
qed

subsection \<open>C3: the order of the phases\<close>



subsection \<open>C4: what a failing phase leaves behind\<close>

text \<open>
  C4: for every invocation in which some sequential phase fails (the span of a phase is
  closed with an error), no later sequential phase gets a span (only the external call
  can fail, and \<open>final_computation\<close> is the phase after it), the root span's status is
  that error, the invocation returns that error, and every span completed before the
  failure is finalized with status success and has been handed to the span processor:
  the spans handed over are exactly the spans created, and none is left open.
\<close>

theorem failing_phase_policy:
  assumes "Some (Error err) \<in> set (map status_of (descendant_spans (trace_of e t0)))"
  shows "spans_named ''final_computation'' (trace_of e t0) = [] \<and>
         map status_of (spans_named ''complex_operation'' (trace_of e t0)) =
           [Some (Error err)] \<and>
         fst (complex_operation e (init_world t0)) = Inl err \<and>
         map (\<lambda>s. (span_name s, status_of s)) (take 5 (descendant_spans (trace_of e t0))) =
           [(''database_query'', Some Success), (''processing'', Some Success),
            (''async_task1'', Some Success), (''async_task2'', Some Success),
            (''async_task3'', Some Success)] \<and>
         set (submitted (trace_of e t0)) = set (spans (trace_of e t0)) \<and>
         length (submitted (trace_of e t0)) = length (spans (trace_of e t0)) \<and>
         filter (\<lambda>s. completion s = None) (spans (trace_of e t0)) = []"
proof (cases "http_get e api_url")
  case (TransportFailure d)
  with assms have "err = RequestException d"
    by (simp add: trace_of_def run_transport_failure descendant_spans_def status_of_def)
  with TransportFailure show ?thesis
    by (auto simp add: trace_of_def run_transport_failure descendant_spans_def status_of_def
          spans_named_def submitted_wake_sequence length_wake_sequence current_span_Cons)
next
  case (HttpResponse code body)
  show ?thesis
  proof (cases body)
    case None
    with HttpResponse assms have "err = JSONDecodeError"
      by (simp add: trace_of_def run_bad_json descendant_spans_def status_of_def)
    with HttpResponse None show ?thesis
      by (auto simp add: trace_of_def run_bad_json descendant_spans_def status_of_def
            spans_named_def submitted_wake_sequence length_wake_sequence current_span_Cons)
  next
    case (Some j)
    with HttpResponse assms show ?thesis
      by (simp add: trace_of_def run_ok descendant_spans_def status_of_def)
  qed
qed

theorem failing_phase_policy_witness:
  "Some (Error (RequestException ''connection refused'')) \<in>
     set (map status_of (descendant_spans (trace_of refused_env 0))) \<and>
   spans_named ''final_computation'' (trace_of refused_env 0) = [] \<and>
   map status_of (spans_named ''complex_operation'' (trace_of refused_env 0)) =
     [Some (Error (RequestException ''connection refused''))] \<and>
   fst (complex_operation refused_env (init_world 0)) =
     Inl (RequestException ''connection refused'') \<and>
   set (submitted (trace_of refused_env 0)) = set (spans (trace_of refused_env 0)) \<and>
   length (submitted (trace_of refused_env 0)) = 7"
proof -
  have g: "http_get refused_env api_url = TransportFailure ''connection refused''"
    by (simp add: refused_env_def demo_env_def)
  then have h: "Some (Error (RequestException ''connection refused'')) \<in>
        set (map status_of (descendant_spans (trace_of refused_env 0)))"
    by (simp add: trace_of_def run_transport_failure descendant_spans_def status_of_def)
  from g have n: "length (spans (trace_of refused_env 0)) = 7"
    by (simp add: trace_of_def run_transport_failure)
  from failing_phase_policy [OF h] h n show ?thesis
    by simp
qed

subsection \<open>C5: the fan-out joins all sub-tasks\<close>

text \<open>
  C5, as stated: the fan-out never completes before all sub-tasks have completed; even
  when one sub-task fails, the siblings' spans still complete normally and the fan-out
  reports the error only after all siblings have joined. The endpoint awaits
  \<open>asyncio.gather\<close> without \<open>return_exceptions\<close>. In \<open>failing_fan_out\<close> the first
  sub-task raises after 100 ticks while its siblings sleep for 400 and 250: the fan-out
  reports the error at tick 100, when the spans of both siblings are still open.
\<close>

theorem failing_sub_task_counterexample:
  "map (\<lambda>co. (co_name co, co_sleep co, co_raises co)) failing_fan_out =
     [(''task1'', 100, Some (TaskError ''boom'')), (''task2'', 400, None),
      (''task3'', 250, None)] \<and>
   now root_open = 0 \<and>
   fst (gather failing_fan_out [0] root_open) = Inl (TaskError ''boom'') \<and>
   now (snd (gather failing_fan_out [0] root_open)) = 100 \<and>
   map (\<lambda>s. (span_name s, start_time s, completion s))
     (children_of 0 (snd (gather failing_fan_out [0] root_open))) =
     [(''async_task1'', 0, Some (100, Error (TaskError ''boom''))),
      (''async_task2'', 0, None), (''async_task3'', 0, None)] \<and>
   events (snd (gather failing_fan_out [0] root_open)) =
     [SpanStart 0, SpanStart 1, SpanStart 2, SpanStart 3, SpanEnd 1]"
  by (simp add: failing_fan_out_def root_open_def init_world_def gather_def
        async_operation_begin_def async_operation_resume_def start_span_rec end_span_rec
        children_of_def current_span_Cons current_span_Nil)

text \<open>
  C5, amended: for every fan-out execution in which no sub-task fails, the fan-out phase
  never completes before all sub-tasks have completed. That is so in every invocation of
  the endpoint, whose sub-tasks only sleep and log: each sub-task span is opened when
  the fan-out starts and is closed with status success at the sub-task's own wake-up
  time, the three ends (in some order) all come before the external call's span is
  opened, and that happens at the latest of the three wake-up times. When a sub-task
  fails, the fan-out reports the error of a failing sub-task at the time that sub-task
  fails, without waiting for the siblings.
\<close>

theorem fan_out_joins_all_sub_tasks:
  "take 3 (drop 3 (spans (trace_of e t0))) =
     [\<lparr>span_id = 3, parent_span_id = Some 0, span_name = ''async_task1'',
       start_time = fork_time e t0,
       completion = Some (fork_time e t0 + task_sleep e ''task1'', Success)\<rparr>,
      \<lparr>span_id = 4, parent_span_id = Some 0, span_name = ''async_task2'',
       start_time = fork_time e t0,
       completion = Some (fork_time e t0 + task_sleep e ''task2'', Success)\<rparr>,
      \<lparr>span_id = 5, parent_span_id = Some 0, span_name = ''async_task3'',
       start_time = fork_time e t0,
       completion = Some (fork_time e t0 + task_sleep e ''task3'', Success)\<rparr>] \<and>
   take 3 (drop 5 (events (trace_of e t0))) = [SpanStart 3, SpanStart 4, SpanStart 5] \<and>
   set (take 3 (drop 8 (events (trace_of e t0)))) = {SpanEnd 3, SpanEnd 4, SpanEnd 5} \<and>
   take 1 (drop 11 (events (trace_of e t0))) = [SpanStart 6] \<and>
   map start_time (spans_named ''external_api_call'' (trace_of e t0)) = [join_time e t0] \<and>
   fork_time e t0 + task_sleep e ''task1'' \<le> join_time e t0 \<and>
   fork_time e t0 + task_sleep e ''task2'' \<le> join_time e t0 \<and>
   fork_time e t0 + task_sleep e ''task3'' \<le> join_time e t0 \<and>
   join_time e t0 \<in> {fork_time e t0 + task_sleep e ''task1'',
                      fork_time e t0 + task_sleep e ''task2'',
                      fork_time e t0 + task_sleep e ''task3''} \<and>
   (if \<forall>co\<in>set cos. co_raises co = None
    then fst (gather cos ctx w) = Inr () \<and>
         (\<forall>co\<in>set cos. now w + co_sleep co \<le> now (snd (gather cos ctx w)))
    else \<exists>co\<in>set cos. \<exists>err. co_raises co = Some err \<and> fst (gather cos ctx w) = Inl err \<and>
           now (snd (gather cos ctx w)) = now w + co_sleep co)"
proof -
  have times: "fork_time e t0 + task_sleep e ''task1'' \<le> join_time e t0 \<and>
      fork_time e t0 + task_sleep e ''task2'' \<le> join_time e t0 \<and>
      fork_time e t0 + task_sleep e ''task3'' \<le> join_time e t0 \<and>
      join_time e t0 \<in> {fork_time e t0 + task_sleep e ''task1'',
                         fork_time e t0 + task_sleep e ''task2'',
                         fork_time e t0 + task_sleep e ''task3''}"
    using longest_sleep_cases [of e] by (auto simp add: join_time_def task_sleep_le_longest)
  have trace: "take 3 (drop 3 (spans (trace_of e t0))) =
     [\<lparr>span_id = 3, parent_span_id = Some 0, span_name = ''async_task1'',
       start_time = fork_time e t0,
       completion = Some (fork_time e t0 + task_sleep e ''task1'', Success)\<rparr>,
      \<lparr>span_id = 4, parent_span_id = Some 0, span_name = ''async_task2'',
       start_time = fork_time e t0,
       completion = Some (fork_time e t0 + task_sleep e ''task2'', Success)\<rparr>,
      \<lparr>span_id = 5, parent_span_id = Some 0, span_name = ''async_task3'',
       start_time = fork_time e t0,
       completion = Some (fork_time e t0 + task_sleep e ''task3'', Success)\<rparr>] \<and>
   take 3 (drop 5 (events (trace_of e t0))) = [SpanStart 3, SpanStart 4, SpanStart 5] \<and>
   set (take 3 (drop 8 (events (trace_of e t0)))) = {SpanEnd 3, SpanEnd 4, SpanEnd 5} \<and>
   take 1 (drop 11 (events (trace_of e t0))) = [SpanStart 6] \<and>
   map start_time (spans_named ''external_api_call'' (trace_of e t0)) = [join_time e t0]"
  proof (cases "http_get e api_url")
    case (TransportFailure d)
    then show ?thesis
      by (simp add: trace_of_def run_transport_failure spans_named_def
            ends_wake_sequence length_wake_sequence)
  next
    case (HttpResponse code body)
    show ?thesis
    proof (cases body)
      case None
      with HttpResponse show ?thesis
        by (simp add: trace_of_def run_bad_json spans_named_def
              ends_wake_sequence length_wake_sequence)
    next
      case (Some j)
      with HttpResponse show ?thesis
        by (simp add: trace_of_def run_ok spans_named_def
              ends_wake_sequence length_wake_sequence)
    qed
  qed
  from trace times gather_result [of cos ctx w] show ?thesis
    by blast
qed

theorem fan_out_joins_all_sub_tasks_witness:
  "map completion (take 3 (drop 3 (spans (trace_of demo_env 0)))) =
     [Some (900, Success), Some (600, Success), Some (750, Success)] \<and>
   map start_time (spans_named ''external_api_call'' (trace_of demo_env 0)) = [900] \<and>
   join_time demo_env 0 = 900 \<and>
   fst (gather (map (\<lambda>nm. async_operation nm demo_env) task_names) [0] root_open) = Inr () \<and>
   400 \<le> now (snd (gather (map (\<lambda>nm. async_operation nm demo_env) task_names) [0] root_open)) \<and>
   fst (gather failing_fan_out [0] root_open) = Inl (TaskError ''boom'') \<and>
   now (snd (gather failing_fan_out [0] root_open)) = 100"
proof -
  have t: "fork_time demo_env 0 = 500" "join_time demo_env 0 = 900" "now root_open = 0"
    by (simp_all add: join_time_def fork_time_def longest_sleep_def demo_env_def
          root_open_def init_world_def start_span_rec)
  from t fan_out_joins_all_sub_tasks
         [of demo_env 0 "map (\<lambda>nm. async_operation nm demo_env) task_names" "[0]" root_open]
  have a: "map completion (take 3 (drop 3 (spans (trace_of demo_env 0)))) =
       [Some (900, Success), Some (600, Success), Some (750, Success)] \<and>
     map start_time (spans_named ''external_api_call'' (trace_of demo_env 0)) = [900] \<and>
     fst (gather (map (\<lambda>nm. async_operation nm demo_env) task_names) [0] root_open) = Inr () \<and>
     400 \<le> now (snd (gather (map (\<lambda>nm. async_operation nm demo_env) task_names) [0] root_open))"
    by (simp add: demo_env_def task_names_def async_operation_def)
  from t fan_out_joins_all_sub_tasks [of demo_env 0 failing_fan_out "[0]" root_open]
  have b: "fst (gather failing_fan_out [0] root_open) = Inl (TaskError ''boom'') \<and>
     now (snd (gather failing_fan_out [0] root_open)) = 100"
    by (simp add: failing_fan_out_def)
  from a b t show ?thesis
    by simp
qed

subsection \<open>C8: every span lies within its parent\<close>

text \<open>
  C8: in every invocation every span is completed with an end time that is not before
  its start time, and a span with a parent identifier names a span of the trace that
  starts no later and ends no earlier than it does, so the parent's interval contains
  the child's.
\<close>

theorem spans_within_parents:
  "list_all (\<lambda>s. closed_in_order s \<and> within_parent (spans (trace_of e t0)) s)
     (spans (trace_of e t0))"
proof -
  note le = task_sleep_le_longest [of e]
  show ?thesis
  proof (cases "http_get e api_url")
    case (TransportFailure d)
    with le show ?thesis
      by (simp add: trace_of_def run_transport_failure closed_in_order_def within_parent_def
            fork_time_def join_time_def)
  next
    case (HttpResponse code body)
    show ?thesis
    proof (cases body)
      case None
      with HttpResponse le show ?thesis
        by (simp add: trace_of_def run_bad_json closed_in_order_def within_parent_def
              fork_time_def join_time_def)
    next
      case (Some j)
      with HttpResponse le show ?thesis
        by (simp add: trace_of_def run_ok closed_in_order_def within_parent_def
              fork_time_def join_time_def)
    qed
  qed
qed

theorem spans_within_parents_witness:
  "map parent_span_id (take 2 (spans (trace_of demo_env 0))) = [None, Some 0] \<and>
   list_all (\<lambda>s. closed_in_order s \<and> within_parent (spans (trace_of demo_env 0)) s)
     (spans (trace_of demo_env 0))"
proof -
  have "http_get demo_env api_url = HttpResponse 200 (Some ''{id: 1}'')"
    by (simp add: demo_env_def)
  then have "map parent_span_id (take 2 (spans (trace_of demo_env 0))) = [None, Some 0]"
    by (simp add: trace_of_def run_ok)
  with spans_within_parents [of demo_env 0] show ?thesis
    by simp
qed

subsection \<open>C9: spans close in reverse order of opening on each path\<close>

text \<open>
  C9: in every invocation, on each execution path (the coroutine of the endpoint, and
  each of the three tasks with the root span it inherits) the span events are a stack
  discipline: every end closes the span that was opened last on that path and is still
  open, and nothing stays open.
\<close>

theorem spans_close_in_reverse_order:
  "lifo [] (path_events main_path (trace_of e t0)) \<and>
   lifo [] (path_events (branch_path ''task1'') (trace_of e t0)) \<and>
   lifo [] (path_events (branch_path ''task2'') (trace_of e t0)) \<and>
   lifo [] (path_events (branch_path ''task3'') (trace_of e t0))"
proof (cases "http_get e api_url")
  case (TransportFailure d)
  then show ?thesis
    by (simp add: trace_of_def run_transport_failure path_events_def path_ids_def
          main_path_def branch_path_def filter_wake_sequence spawned_def)
next
  case (HttpResponse code body)
  show ?thesis
  proof (cases body)
    case None
    with HttpResponse show ?thesis
      by (simp add: trace_of_def run_bad_json path_events_def path_ids_def
            main_path_def branch_path_def filter_wake_sequence spawned_def)
  next
    case (Some j)
    with HttpResponse show ?thesis
      by (simp add: trace_of_def run_ok path_events_def path_ids_def
            main_path_def branch_path_def filter_wake_sequence spawned_def)
  qed
qed

theorem spans_close_in_reverse_order_witness:
  "path_events main_path (trace_of demo_env 0) =
     [SpanStart 0, SpanStart 1, SpanEnd 1, SpanStart 2, SpanEnd 2, SpanStart 6, SpanEnd 6,
      SpanStart 7, SpanEnd 7, SpanEnd 0] \<and>
   lifo [] (path_events main_path (trace_of demo_env 0)) \<and>
   path_events (branch_path ''task1'') (trace_of demo_env 0) =
     [SpanStart 0, SpanStart 3, SpanEnd 3, SpanEnd 0] \<and>
   lifo [] (path_events (branch_path ''task1'') (trace_of demo_env 0))"
proof -
  have "http_get demo_env api_url = HttpResponse 200 (Some ''{id: 1}'')"
    by (simp add: demo_env_def)
  then have "path_events main_path (trace_of demo_env 0) =
     [SpanStart 0, SpanStart 1, SpanEnd 1, SpanStart 2, SpanEnd 2, SpanStart 6, SpanEnd 6,
      SpanStart 7, SpanEnd 7, SpanEnd 0] \<and>
     path_events (branch_path ''task1'') (trace_of demo_env 0) =
     [SpanStart 0, SpanStart 3, SpanEnd 3, SpanEnd 0]"
    by (simp add: trace_of_def run_ok path_events_def path_ids_def
          main_path_def branch_path_def filter_wake_sequence spawned_def)
  with spans_close_in_reverse_order [of demo_env 0] show ?thesis
    by simp
qed

subsection \<open>C10: the fan-out has no span of its own\<close>

text \<open>The span that \<open>async_operation\<close> opens, for any sub-task name and from any
  world: its name is \<open>async_\<close> followed by the name, and its parent is the current span
  of the context that the task was given.\<close>

lemma async_operation_begin_span:
  "spans (snd (async_operation_begin (async_operation nm e) ctx w)) =
     spans w @ [\<lparr>span_id = next_span_id w, parent_span_id = current_span ctx,
                  span_name = ''async_'' @ nm, start_time = now w, completion = None\<rparr>]"
  by (simp add: async_operation_def async_operation_begin_def start_span_def Let_def)

text \<open>
  C10: in every invocation the three sub-task spans are named \<open>async_\<close> followed by the
  name of the sub-task, and each is a direct child of the root span
  \<open>complex_operation\<close>. No span stands for the fan-out: every span of the trace but
  the root is a child of the root, and the names of the spans are the root's, the four
  sequential phases' and the three sub-tasks'.
\<close>

theorem fan_out_has_no_span:
  "map (\<lambda>s. (span_id s, parent_span_id s)) (spans_named ''complex_operation'' (trace_of e t0)) =
     [(0, None)] \<and>
   map (\<lambda>s. (span_name s, parent_span_id s))
     (filter (\<lambda>s. take 6 (span_name s) = ''async_'') (spans (trace_of e t0))) =
     [(''async_'' @ ''task1'', Some 0), (''async_'' @ ''task2'', Some 0),
      (''async_'' @ ''task3'', Some 0)] \<and>
   filter (\<lambda>s. parent_span_id s \<noteq> Some 0) (spans (trace_of e t0)) =
     spans_named ''complex_operation'' (trace_of e t0) \<and>
   filter (\<lambda>s. span_name s \<notin> set (''complex_operation'' # ''database_query'' #
       ''processing'' # ''external_api_call'' # ''final_computation'' #
       map (\<lambda>nm. ''async_'' @ nm) task_names)) (spans (trace_of e t0)) = []"
proof (cases "http_get e api_url")
  case (TransportFailure d)
  then show ?thesis
    by (simp add: trace_of_def run_transport_failure spans_named_def task_names_def)
next
  case (HttpResponse code body)
  show ?thesis
  proof (cases body)
    case None
    with HttpResponse show ?thesis
      by (simp add: trace_of_def run_bad_json spans_named_def task_names_def)
  next
    case (Some j)
    with HttpResponse show ?thesis
      by (simp add: trace_of_def run_ok spans_named_def task_names_def)
  qed
qed

theorem fan_out_has_no_span_witness:
  "map span_name (spans (trace_of demo_env 0)) =
     [''complex_operation'', ''database_query'', ''processing'', ''async_task1'',
      ''async_task2'', ''async_task3'', ''external_api_call'', ''final_computation''] \<and>
   map (\<lambda>s. (span_name s, parent_span_id s))
     (filter (\<lambda>s. take 6 (span_name s) = ''async_'') (spans (trace_of demo_env 0))) =
     [(''async_task1'', Some 0), (''async_task2'', Some 0), (''async_task3'', Some 0)]"
proof -
  have "http_get demo_env api_url = HttpResponse 200 (Some ''{id: 1}'')"
    by (simp add: demo_env_def)
  then have "map span_name (spans (trace_of demo_env 0)) =
     [''complex_operation'', ''database_query'', ''processing'', ''async_task1'',
      ''async_task2'', ''async_task3'', ''external_api_call'', ''final_computation'']"
    by (simp add: trace_of_def run_ok)
  with fan_out_has_no_span [of demo_env 0] show ?thesis
    by simp
qed

end
